theory Spec2Isabelle
  imports Main
begin

section \<open>Data model of \<open>middleware/auth.js\<close>\<close>

text \<open>
  The middleware file exports Express middlewares of the shape \<open>(req, res, next)\<close>.
  A middleware reads \<open>req.headers['authorization']\<close> and \<open>req.user\<close>, may assign
  \<open>req.user\<close>, may send one response with \<open>res.status(n).json(body)\<close>, and may call
  \<open>next()\<close>. The model passes the request in and returns the request as the middleware
  leaves it, the response it sent (if any) and whether it called \<open>next\<close>. Output on the
  console is not part of the model.

  A string is the list of its bytes in UTF-8. The space, the one separator the source
  splits at, is a single byte that occurs in no longer sequence, and two strings are equal
  exactly when their bytes are.
\<close>

text \<open>The object assigned to \<open>req.user\<close>: \<open>{ id, username, email, roles }\<close>.\<close>

record identity =
  user_id :: string
  username :: "string option"
  user_email :: "string option"
  roles :: "string list"

text \<open>
  The part of a request the middlewares touch. An absent header and an unset
  \<open>req.user\<close> (both \<open>undefined\<close> in the source) are \<open>None\<close>.
\<close>

record request =
  authorization :: "string option"
  user :: "identity option"

text \<open>The values that occur in the JSON bodies: a string or an array of strings.\<close>

datatype jvalue = JStr string | JArr "string list"

record response =
  status :: nat
  body :: "(string \<times> jvalue) list"

record outcome =
  req :: request
  res :: "response option"
  next_called :: bool

text \<open>\<open>return res.status(n).json(b)\<close>: the request is left as it is, \<open>next\<close> is not called.\<close>

definition reject :: "request \<Rightarrow> nat \<Rightarrow> (string \<times> jvalue) list \<Rightarrow> outcome" where
  "reject rq n b = \<lparr>req = rq, res = Some \<lparr>status = n, body = b\<rparr>, next_called = False\<rparr>"

text \<open>\<open>next()\<close> with nothing sent.\<close>

definition continue :: "request \<Rightarrow> outcome" where
  "continue rq = \<lparr>req = rq, res = None, next_called = True\<rparr>"

section \<open>The role gates\<close>

text \<open>
  \<open>String.prototype.toLowerCase\<close> is a built-in of the language, with the case mapping
  of Unicode behind it. The gates take it as the argument \<open>toLowerCase\<close>, a function on
  strings, and everything proved about them holds for every such function.

  \<open>requireRole(allowedRoles)\<close> returns the middleware
  \<^verbatim>\<open>
  (req, res, next) => {
      if (!req.user) return res.status(401).json({ error: 'Not authenticated' });
      const userRoles = req.user.roles.map(r => r.toLowerCase());
      const hasRole = allowedRoles.some(role => userRoles.includes(role.toLowerCase()));
      if (!hasRole) return res.status(403).json({ error: ..., required: allowedRoles,
                                                  userRoles: userRoles });
      next();
  }
  \<close>
\<close>

definition requireRole :: "(string \<Rightarrow> string) \<Rightarrow> string list \<Rightarrow> request \<Rightarrow> outcome" where
  "requireRole toLowerCase allowedRoles rq =
     (case user rq of
        None \<Rightarrow> reject rq 401 [(''error'', JStr ''Not authenticated'')]
      | Some u \<Rightarrow>
          (let userRoles = map toLowerCase (roles u);
               hasRole = list_ex (\<lambda>role. toLowerCase role \<in> set userRoles) allowedRoles
           in if \<not> hasRole
              then reject rq 403
                     [(''error'', JStr ''Access denied. Insufficient permissions.''),
                      (''required'', JArr allowedRoles),
                      (''userRoles'', JArr userRoles)]
              else continue rq))"

definition requireDoctor :: "(string \<Rightarrow> string) \<Rightarrow> request \<Rightarrow> outcome" where
  "requireDoctor toLowerCase = requireRole toLowerCase [''doctor'']"

definition requireDoctorOrStaff :: "(string \<Rightarrow> string) \<Rightarrow> request \<Rightarrow> outcome" where
  "requireDoctorOrStaff toLowerCase = requireRole toLowerCase [''doctor'', ''staff'']"

definition requireAuthenticated :: "request \<Rightarrow> outcome" where
  "requireAuthenticated rq =
     (case user rq of
        None \<Rightarrow> reject rq 401 [(''error'', JStr ''Not authenticated'')]
      | Some u \<Rightarrow> continue rq)"

subsection \<open>Lower-casing and case-insensitive comparison of ASCII names\<close>

text \<open>
  On a string of ASCII characters \<open>String.prototype.toLowerCase\<close> moves \<open>A\<close>..\<open>Z\<close>
  to \<open>a\<close>..\<open>z\<close> and leaves every other character alone. \<open>ascii_lower\<close> is that
  function; it stands for the built-in at ASCII strings only.
\<close>

definition is_ascii :: "string \<Rightarrow> bool" where
  "is_ascii s = list_all (\<lambda>c. (of_char c :: nat) < 128) s"

definition ascii_lower_char :: "char \<Rightarrow> char" where
  "ascii_lower_char c =
     (case map_of (zip ''ABCDEFGHIJKLMNOPQRSTUVWXYZ'' ''abcdefghijklmnopqrstuvwxyz'') c of
        None \<Rightarrow> c
      | Some l \<Rightarrow> l)"

definition ascii_lower :: "string \<Rightarrow> string" where
  "ascii_lower s = map ascii_lower_char s"

text \<open>
  The specification's "case-insensitive", said without any lower-casing: two names are
  the same ignoring case when they have the same length and, place by place, the same
  character or the two cases of one letter. This definition follows the specification's
  words; C2 compares it with what the gate computes.
\<close>

definition same_letter :: "char \<Rightarrow> char \<Rightarrow> bool" where
  "same_letter c d =
     (c = d \<or>
      (c, d) \<in> set (zip ''ABCDEFGHIJKLMNOPQRSTUVWXYZ'' ''abcdefghijklmnopqrstuvwxyz'') \<or>
      (d, c) \<in> set (zip ''ABCDEFGHIJKLMNOPQRSTUVWXYZ'' ''abcdefghijklmnopqrstuvwxyz''))"

definition same_ignoring_case :: "string \<Rightarrow> string \<Rightarrow> bool" where
  "same_ignoring_case a b = list_all2 same_letter a b"

section \<open>The token authenticator\<close>

subsection \<open>Configuration\<close>

text \<open>The two variables of \<open>process.env\<close> the file reads; an unset variable is \<open>None\<close>.\<close>

record env =
  KEYCLOAK_JWKS_URI :: "string option"
  KEYCLOAK_ISSUER :: "string option"

text \<open>\<open>a || d\<close> on a string that may be undefined: the default replaces \<open>undefined\<close> and \<open>''\<close>.\<close>

definition or_default :: "string option \<Rightarrow> string \<Rightarrow> string" where
  "or_default a d = (case a of None \<Rightarrow> d | Some s \<Rightarrow> if s = [] then d else s)"

text \<open>The options object handed to \<open>jwksClient\<close>.\<close>

record jwks_options =
  jwksUri :: string
  cache :: bool
  cacheMaxEntries :: nat
  cacheMaxAge :: int

definition client_options :: "env \<Rightarrow> jwks_options" where
  "client_options e =
     \<lparr>jwksUri = or_default (KEYCLOAK_JWKS_URI e)
        ''https://patientsystem-keycloak.app.cloud.cbh.kth.se/realms/patientsystem/protocol/openid-connect/certs'',
      cache = True,
      cacheMaxEntries = 5,
      cacheMaxAge = 600000\<rparr>"

record jwt_options =
  issuer :: string
  algorithms :: "string list"

definition jwtOptions :: "env \<Rightarrow> jwt_options" where
  "jwtOptions e =
     \<lparr>issuer = or_default (KEYCLOAK_ISSUER e)
        ''https://patientsystem-keycloak.app.cloud.cbh.kth.se/realms/patientsystem'',
      algorithms = [''RS256'']\<rparr>"

subsection \<open>Tokens, keys and the two library calls\<close>

text \<open>The header of a token as \<open>getKey\<close> receives it, and a key of the key set.\<close>

record jwt_header =
  alg :: string
  kid :: string

record signing_key =
  keyId :: string
  publicKey :: string

text \<open>
  The decoded payload handed to the callback of \<open>jwt.verify\<close>. The realm roles sit
  under \<open>realm_access.roles\<close>; both the object and its \<open>roles\<close> field may be absent.
\<close>

record realm_access =
  realm_roles :: "string list option"

record claims =
  sub :: string
  iss :: string
  iat :: int
  exp :: int
  preferred_username :: "string option"
  email :: "string option"
  realm_access :: "realm_access option"

text \<open>
  \<open>jwt.verify\<close> (package \<open>jsonwebtoken\<close>) and \<open>client.getSigningKey\<close> (package
  \<open>jwks-rsa\<close>) are library calls. The middleware is modelled over any pair of them:
  \<open>'c\<close> is the state of the JWKS client (its cache), threaded through every call;
  \<open>'k\<close> and \<open>'e\<close> are the error values of the two libraries. A callback
  \<open>(err, value)\<close> is a sum, \<open>Inl\<close> the error.
\<close>

type_synonym ('c, 'k) get_signing_key = "string \<Rightarrow> 'c \<Rightarrow> ('k + signing_key) \<times> 'c"

type_synonym ('c, 'k) key_callback = "jwt_header \<Rightarrow> 'c \<Rightarrow> ('k + string) \<times> 'c"

type_synonym ('c, 'k, 'e) jwt_verify =
  "string \<Rightarrow> ('c, 'k) key_callback \<Rightarrow> jwt_options \<Rightarrow> 'c \<Rightarrow> ('e + claims) \<times> 'c"

text \<open>\<open>key.getPublicKey()\<close>.\<close>

definition getPublicKey :: "signing_key \<Rightarrow> string" where
  "getPublicKey key = publicKey key"

text \<open>
  \<^verbatim>\<open>
  function getKey(header, callback) {
      client.getSigningKey(header.kid, (err, key) => {
          if (err) callback(err, null);
          else callback(null, key.getPublicKey());
      });
  }
  \<close>
\<close>

definition getKey :: "('c, 'k) get_signing_key \<Rightarrow> ('c, 'k) key_callback" where
  "getKey getSigningKey header c =
     (case getSigningKey (kid header) c of
        (Inl err, c') \<Rightarrow> (Inl err, c')
      | (Inr key, c') \<Rightarrow> (Inr (getPublicKey key), c'))"

subsection \<open>Reading the header\<close>

text \<open>\<open>s.split(d)\<close> for a one-character separator: every separator ends a field.\<close>

fun split :: "char \<Rightarrow> string \<Rightarrow> string list" where
  "split d [] = [[]]"
| "split d (c # cs) =
     (if c = d then [] # split d cs
      else (case split d cs of [] \<Rightarrow> [[c]] | w # ws \<Rightarrow> (c # w) # ws))"

text \<open>\<open>xs[i]\<close>: \<open>undefined\<close> out of range.\<close>

definition index :: "'a list \<Rightarrow> nat \<Rightarrow> 'a option" where
  "index xs i = (if i < length xs then Some (xs ! i) else None)"

text \<open>
  \<open>authHeader && authHeader.split(' ')[1]\<close>: \<open>&&\<close> gives back a falsy left operand
  (\<open>undefined\<close> or \<open>''\<close>) as it is.
\<close>

definition token_of :: "string option \<Rightarrow> string option" where
  "token_of authHeader =
     (case authHeader of
        None \<Rightarrow> None
      | Some h \<Rightarrow> if h = [] then Some [] else index (split (CHR '' '') h) 1)"

subsection \<open>\<open>authenticateToken\<close>\<close>

text \<open>\<open>decoded.realm_access?.roles || []\<close>.\<close>

definition roles_of :: "claims \<Rightarrow> string list" where
  "roles_of decoded =
     (case (case realm_access decoded of None \<Rightarrow> None | Some ra \<Rightarrow> realm_roles ra) of
        None \<Rightarrow> []
      | Some rs \<Rightarrow> rs)"

definition identity_of :: "claims \<Rightarrow> identity" where
  "identity_of decoded =
     \<lparr>user_id = sub decoded,
      username = preferred_username decoded,
      user_email = email decoded,
      roles = roles_of decoded\<rparr>"

text \<open>
  \<^verbatim>\<open>
  const authenticateToken = (req, res, next) => {
      const authHeader = req.headers['authorization'];
      const token = authHeader && authHeader.split(' ')[1];
      if (!token) return res.status(401).json({ error: 'Access denied. No token provided.' });
      jwt.verify(token, getKey, jwtOptions, (err, decoded) => {
          if (err) return res.status(403).json({ error: 'Invalid or expired token.' });
          req.user = { id: decoded.sub, username: decoded.preferred_username,
                       email: decoded.email, roles: decoded.realm_access?.roles || [] };
          next();
      });
  };
  \<close>
  \<open>!token\<close> holds for \<open>undefined\<close> and for the empty string.
\<close>

definition authenticateToken ::
  "('c, 'k, 'e) jwt_verify \<Rightarrow> ('c, 'k) get_signing_key \<Rightarrow> env \<Rightarrow> request \<Rightarrow> 'c \<Rightarrow> outcome \<times> 'c"
where
  "authenticateToken verify getSigningKey e rq c =
     (let authHeader = authorization rq;
          token = token_of authHeader;
          no_token = reject rq 401 [(''error'', JStr ''Access denied. No token provided.'')]
      in case token of
           None \<Rightarrow> (no_token, c)
         | Some t \<Rightarrow>
             if t = [] then (no_token, c)
             else (case verify t (getKey getSigningKey) (jwtOptions e) c of
                     (Inl err, c') \<Rightarrow>
                       (reject rq 403 [(''error'', JStr ''Invalid or expired token.'')], c')
                   | (Inr decoded, c') \<Rightarrow>
                       (continue (rq\<lparr>user := Some (identity_of decoded)\<rparr>), c')))"

section \<open>The two libraries, as the specification describes them\<close>

subsection \<open>The key resolver\<close>

text \<open>
  Modelled from the spec: the cache of the JWKS client (package \<open>jwks-rsa\<close>) is not under
  \<open>src/\<close>; the source only configures it (\<open>cache: true, cacheMaxEntries: 5,
  cacheMaxAge: 600000\<close>). Spec 3, KeyCache: a "mapping from keyId to (SigningKey,
  fetchedAt timestamp)". The list holds the entries oldest first, at most one for a key
  identifier. The state also counts the fetches made from the remote key set, the one
  effect of a lookup besides the cache.
\<close>

record cache_entry =
  cached_key :: signing_key
  fetchedAt :: int

record key_resolver =
  entries :: "cache_entry list"
  fetches :: nat

text \<open>
  Modelled from the spec: the error of the JWKS client, which is not under \<open>src/\<close>.
  Spec 4.1: "Fails with KeyResolutionError when: the remote endpoint is unreachable,
  returns malformed data, or contains no entry matching keyId."
\<close>

datatype key_error = KeyResolutionError

text \<open>
  Modelled from the spec: the staleness test of the JWKS client's cache, which is not
  under \<open>src/\<close>. Spec 3: "entries older than a configured max age are treated as stale".
\<close>

definition stale :: "jwks_options \<Rightarrow> int \<Rightarrow> cache_entry \<Rightarrow> bool" where
  "stale cfg now e = (cacheMaxAge cfg < now - fetchedAt e)"

text \<open>
  Modelled from the spec: reading the JWKS client's cache, which is not under \<open>src/\<close>,
  at one key identifier.
\<close>

definition cached :: "string \<Rightarrow> cache_entry list \<Rightarrow> cache_entry option" where
  "cached k es = find (\<lambda>x. keyId (cached_key x) = k) es"

text \<open>
  Modelled from the spec: insertion into the JWKS client's cache, which is not under
  \<open>src/\<close>. Spec 4.1: "store it in the cache with the current timestamp", with
  "eviction of the oldest entry when inserting would exceed the configured maximum entry
  count". The cache being a mapping, an entry for the same key identifier is replaced.
\<close>

definition store :: "jwks_options \<Rightarrow> cache_entry \<Rightarrow> cache_entry list \<Rightarrow> cache_entry list" where
  "store cfg e es =
     (let others = filter (\<lambda>x. keyId (cached_key x) \<noteq> keyId (cached_key e)) es
      in (if cacheMaxEntries cfg \<le> length others then tl others else others) @ [e])"

text \<open>
  Modelled from the spec: the cache miss of \<open>client.getSigningKey\<close> (package
  \<open>jwks-rsa\<close>, not under \<open>src/\<close>). Spec 4.1: "fetch the key set from the configured
  remote endpoint, locate the entry matching keyId, store it in the cache with the current
  timestamp, and return it". The key set the endpoint serves is \<open>remote\<close>; \<open>None\<close> is
  an endpoint that is unreachable or answers with malformed data.
\<close>

definition fetch ::
  "jwks_options \<Rightarrow> signing_key list option \<Rightarrow> int \<Rightarrow> (key_resolver, key_error) get_signing_key"
where
  "fetch cfg remote now k s =
     (let s' = s\<lparr>fetches := Suc (fetches s)\<rparr>
      in case remote of
           None \<Rightarrow> (Inl KeyResolutionError, s')
         | Some ks \<Rightarrow>
             (case find (\<lambda>x. keyId x = k) ks of
                None \<Rightarrow> (Inl KeyResolutionError, s')
              | Some key \<Rightarrow>
                  (Inr key,
                   s'\<lparr>entries := store cfg \<lparr>cached_key = key, fetchedAt = now\<rparr> (entries s')\<rparr>)))"

text \<open>
  Modelled from the spec: \<open>client.getSigningKey\<close> of package \<open>jwks-rsa\<close>, which is not
  under \<open>src/\<close> (spec 4.1, \<open>resolveKey\<close>). "If a non-stale cached entry exists for
  keyId, return it immediately (no network call). Otherwise, fetch".
\<close>

definition resolveKey ::
  "jwks_options \<Rightarrow> signing_key list option \<Rightarrow> int \<Rightarrow> (key_resolver, key_error) get_signing_key"
where
  "resolveKey cfg remote now k s =
     (case cached k (entries s) of
        None \<Rightarrow> fetch cfg remote now k s
      | Some e \<Rightarrow>
          if stale cfg now e then fetch cfg remote now k s else (Inr (cached_key e), s))"

text \<open>
  Modelled from the spec: the life of the JWKS client's cache, which is not under
  \<open>src/\<close>. Spec 3: "process-wide, lazily populated". A run of lookups, each with the key
  set the endpoint serves and the clock at that moment, from a given state; the cache
  starts empty.
\<close>

fun resolve_all ::
  "jwks_options \<Rightarrow> (signing_key list option \<times> int \<times> string) list \<Rightarrow> key_resolver \<Rightarrow> key_resolver"
where
  "resolve_all cfg [] s = s"
| "resolve_all cfg ((remote, now, k) # rest) s =
     resolve_all cfg rest (snd (resolveKey cfg remote now k s))"

definition empty_resolver :: key_resolver where
  "empty_resolver = \<lparr>entries = [], fetches = 0\<rparr>"

subsection \<open>The verifier\<close>

text \<open>
  Modelled from the spec: what \<open>jwt.verify\<close> (package \<open>jsonwebtoken\<close>, not under
  \<open>src/\<close>) takes from outside. The parser of the compact token (spec 4.2 step 2, "parse
  the token header (unverified)"), the signature check for an algorithm, a public key and
  a token (step 3), the clock in seconds and the tolerance for clock skew (step 4).
\<close>

record jwt_library =
  decode :: "string \<Rightarrow> (jwt_header \<times> claims) option"
  signature_valid :: "string \<Rightarrow> string \<Rightarrow> string \<Rightarrow> bool"
  clock :: int
  clockTolerance :: int

text \<open>
  Modelled from the spec: the error of \<open>jwt.verify\<close>, which is not under \<open>src/\<close>.
  Spec 7: "InvalidTokenError (bad signature, expired, wrong issuer/algorithm)".
\<close>

datatype token_error = InvalidTokenError

text \<open>
  Modelled from the spec: \<open>jwt.verify\<close> of package \<open>jsonwebtoken\<close>, which is not under
  \<open>src/\<close> (spec 4.2, steps 2 to 4). Resolve key: parse the header, call the key
  callback; a key error "is treated as InvalidTokenError". Verify: "reject tokens
  declaring any other algorithm" than those of the options, then check the signature
  against the resolved key. Validate claims: the issuer "equals the configured expected
  issuer" and the current time "is within [issuedAt, expiresAt]", up to the clock-skew
  tolerance. A token that does not parse is invalid.
\<close>

definition jwt_verify :: "jwt_library \<Rightarrow> ('c, 'k, token_error) jwt_verify" where
  "jwt_verify L token key_callback options c =
     (case decode L token of
        None \<Rightarrow> (Inl InvalidTokenError, c)
      | Some (header, payload) \<Rightarrow>
          (case key_callback header c of
             (Inl err, c') \<Rightarrow> (Inl InvalidTokenError, c')
           | (Inr key, c') \<Rightarrow>
               if alg header \<notin> set (algorithms options) then (Inl InvalidTokenError, c')
               else if \<not> signature_valid L (alg header) key token
                 then (Inl InvalidTokenError, c')
               else if iss payload \<noteq> issuer options then (Inl InvalidTokenError, c')
               else if \<not> (iat payload - clockTolerance L \<le> clock L \<and>
                          clock L \<le> exp payload + clockTolerance L)
                 then (Inl InvalidTokenError, c')
               else (Inr payload, c')))"

section \<open>Fixtures\<close>

text \<open>
  Stand-ins for the two libraries and sample data, for the closed instances of the
  theorems below: a verifier that accepts every token with given claims, one that
  refuses every token, and a key set that is never reachable. The client state is
  \<open>unit\<close>.
\<close>

definition accepting :: "claims \<Rightarrow> (unit, unit, string) jwt_verify" where
  "accepting decoded token key_callback options c = (Inr decoded, c)"

definition refusing :: "(unit, unit, string) jwt_verify" where
  "refusing token key_callback options c = (Inl ''invalid signature'', c)"

definition unreachable :: "(unit, unit) get_signing_key" where
  "unreachable k c = (Inl (), c)"

definition no_env :: env where
  "no_env = \<lparr>KEYCLOAK_JWKS_URI = None, KEYCLOAK_ISSUER = None\<rparr>"

definition sample_claims :: "string list \<Rightarrow> claims" where
  "sample_claims rs =
     \<lparr>sub = ''42'',
      iss = ''https://patientsystem-keycloak.app.cloud.cbh.kth.se/realms/patientsystem'',
      iat = 1000,
      exp = 1300,
      preferred_username = Some ''anna'',
      email = None,
      realm_access = Some \<lparr>realm_roles = Some rs\<rparr>\<rparr>"

definition sample_user :: "string list \<Rightarrow> identity" where
  "sample_user rs = \<lparr>user_id = ''42'', username = Some ''anna'', user_email = None, roles = rs\<rparr>"

text \<open>
  A key set with one key, served without a cache, and a library whose parser knows four
  tokens: \<open>good\<close>, \<open>hs\<close> (the same claims under the algorithm \<open>HS256\<close>),
  \<open>foreign\<close> (another issuer) and \<open>forged\<close>. The signature check accepts every
  token but \<open>forged\<close> under the one key, for any algorithm, as a signature made with the
  public key as a shared secret would be.
\<close>

definition one_key :: "(unit, unit) get_signing_key" where
  "one_key k c =
     (if k = ''k1'' then (Inr \<lparr>keyId = ''k1'', publicKey = ''PUBLIC-KEY-1''\<rparr>, c)
      else (Inl (), c))"

definition sample_tokens :: "(string \<times> jwt_header \<times> claims) list" where
  "sample_tokens =
     [(''good'', \<lparr>alg = ''RS256'', kid = ''k1''\<rparr>, sample_claims [''doctor'']),
      (''hs'', \<lparr>alg = ''HS256'', kid = ''k1''\<rparr>, sample_claims [''doctor'']),
      (''foreign'', \<lparr>alg = ''RS256'', kid = ''k1''\<rparr>,
         (sample_claims [''doctor''])\<lparr>iss := ''https://example.org/realms/other''\<rparr>),
      (''forged'', \<lparr>alg = ''RS256'', kid = ''k1''\<rparr>, sample_claims [''doctor''])]"

definition sample_signature :: "string \<Rightarrow> string \<Rightarrow> string \<Rightarrow> bool" where
  "sample_signature a key token = (key = ''PUBLIC-KEY-1'' \<and> token \<noteq> ''forged'')"

definition sample_library :: "int \<Rightarrow> jwt_library" where
  "sample_library t =
     \<lparr>decode = map_of sample_tokens,
      signature_valid = sample_signature,
      clock = t,
      clockTolerance = 0\<rparr>"

text \<open>Keys and cache entries by name, and a remote key set of six keys.\<close>

definition sample_key :: "string \<Rightarrow> signing_key" where
  "sample_key k = \<lparr>keyId = k, publicKey = ''PUBLIC-KEY-'' @ k\<rparr>"

definition sample_entry :: "string \<Rightarrow> int \<Rightarrow> cache_entry" where
  "sample_entry k t = \<lparr>cached_key = sample_key k, fetchedAt = t\<rparr>"

definition six_keys :: "signing_key list option" where
  "six_keys = Some (map sample_key [''a'', ''b'', ''c'', ''d'', ''e'', ''f''])"

section \<open>Properties of the header parsing\<close>

lemma split_fields:
  "split d s = takeWhile (\<lambda>x. x \<noteq> d) s #
      (case dropWhile (\<lambda>x. x \<noteq> d) s of [] \<Rightarrow> [] | x # r \<Rightarrow> split d r)"
  by (induction s) (auto split: list.splits)

lemma index_split_1:
  "index (split d s) (Suc 0) =
     (case dropWhile (\<lambda>x. x \<noteq> d) s of
        [] \<Rightarrow> None
      | x # r \<Rightarrow> Some (takeWhile (\<lambda>x. x \<noteq> d) r))"
proof (cases "dropWhile (\<lambda>x. x \<noteq> d) s")
  case Nil
  have "split d s = [takeWhile (\<lambda>x. x \<noteq> d) s]"
    by (subst split_fields) (simp only: Nil list.case)
  then show ?thesis
    by (simp only: Nil list.case) (simp add: index_def)
next
  case (Cons x r)
  obtain ws where ws: "split d r = takeWhile (\<lambda>x. x \<noteq> d) r # ws"
    using split_fields [of d r] by blast
  have "split d s = takeWhile (\<lambda>x. x \<noteq> d) s # takeWhile (\<lambda>x. x \<noteq> d) r # ws"
    by (subst split_fields) (simp only: Cons list.case ws)
  then show ?thesis
    by (simp only: Cons list.case) (simp add: index_def)
qed

text \<open>
  The token is missing exactly when the header is absent or nothing stands between its
  first space and the next one (or the end). The text before the first space plays no part.
\<close>

lemma token_of_falsy:
  "(token_of a = None \<or> token_of a = Some []) \<longleftrightarrow>
     (case a of
        None \<Rightarrow> True
      | Some h \<Rightarrow>
          takeWhile (\<lambda>x. x \<noteq> CHR '' '') (drop 1 (dropWhile (\<lambda>x. x \<noteq> CHR '' '') h)) = [])"
proof (cases a)
  case None
  then show ?thesis by (simp add: token_of_def)
next
  case (Some h)
  show ?thesis
  proof (cases "h = []")
    case True
    with Some show ?thesis by (simp add: token_of_def)
  next
    case False
    then have t: "token_of (Some h) = index (split (CHR '' '') h) (Suc 0)"
      by (simp add: token_of_def)
    show ?thesis
    proof (cases "dropWhile (\<lambda>x. x \<noteq> CHR '' '') h")
      case Nil
      show ?thesis
        unfolding Some t index_split_1 by (simp add: Nil)
    next
      case (Cons x r)
      show ?thesis
        unfolding Some t index_split_1 by (simp add: Cons)
    qed
  qed
qed

section \<open>What \<open>authenticateToken\<close> does in each case\<close>

lemma authenticateToken_falsy:
  "token_of (authorization rq) = None \<or> token_of (authorization rq) = Some [] \<Longrightarrow>
     authenticateToken verify gsk e rq c =
       (reject rq 401 [(''error'', JStr ''Access denied. No token provided.'')], c)"
  by (auto simp: authenticateToken_def)

lemma authenticateToken_verified:
  "token_of (authorization rq) = Some t \<Longrightarrow> t \<noteq> [] \<Longrightarrow>
     authenticateToken verify gsk e rq c =
       (case verify t (getKey gsk) (jwtOptions e) c of
          (Inl err, c') \<Rightarrow> (reject rq 403 [(''error'', JStr ''Invalid or expired token.'')], c')
        | (Inr decoded, c') \<Rightarrow> (continue (rq\<lparr>user := Some (identity_of decoded)\<rparr>), c'))"
  by (simp add: authenticateToken_def)

subsection \<open>Requests without a token\<close>

text \<open>
  C1, as amended. A request whose \<open>Authorization\<close> header is absent, or has nothing
  between its first space and the next space (or the end of the header), is answered with
  401 and the body \<open>{ error: 'Access denied. No token provided.' }\<close>; the request is
  left as it was, \<open>next\<close> is not called, and the verifier is not consulted: the outcome
  is the same for every verifier and the state of the JWKS client is returned unchanged.
  For every other header the second space-separated field, which is then not empty, is
  handed to the verifier, whose answer decides between 403 and continuing. The word
  before the first space is never compared with \<open>Bearer\<close>.
\<close>

theorem authenticateToken_missing_token:
  "((case authorization rq of
        None \<Rightarrow> True
      | Some h \<Rightarrow>
          takeWhile (\<lambda>x. x \<noteq> CHR '' '') (drop 1 (dropWhile (\<lambda>x. x \<noteq> CHR '' '') h)) = [])
     \<longrightarrow> authenticateToken verify gsk e rq c =
           (\<lparr>req = rq,
             res = Some \<lparr>status = 401,
                         body = [(''error'', JStr ''Access denied. No token provided.'')]\<rparr>,
             next_called = False\<rparr>, c))
   \<and> (\<not> (case authorization rq of
        None \<Rightarrow> True
      | Some h \<Rightarrow>
          takeWhile (\<lambda>x. x \<noteq> CHR '' '') (drop 1 (dropWhile (\<lambda>x. x \<noteq> CHR '' '') h)) = [])
     \<longrightarrow> (\<exists>h t. authorization rq = Some h \<and> index (split (CHR '' '') h) 1 = Some t \<and> t \<noteq> [] \<and>
           authenticateToken verify gsk e rq c =
             (case verify t (getKey gsk) (jwtOptions e) c of
                (Inl err, c') \<Rightarrow>
                  (\<lparr>req = rq,
                    res = Some \<lparr>status = 403, body = [(''error'', JStr ''Invalid or expired token.'')]\<rparr>,
                    next_called = False\<rparr>, c')
              | (Inr decoded, c') \<Rightarrow>
                  (\<lparr>req = rq\<lparr>user := Some (identity_of decoded)\<rparr>, res = None, next_called = True\<rparr>, c'))))"
proof (intro conjI impI)
  assume "case authorization rq of
        None \<Rightarrow> True
      | Some h \<Rightarrow>
          takeWhile (\<lambda>x. x \<noteq> CHR '' '') (drop 1 (dropWhile (\<lambda>x. x \<noteq> CHR '' '') h)) = []"
  then have "token_of (authorization rq) = None \<or> token_of (authorization rq) = Some []"
    by (simp add: token_of_falsy)
  then show "authenticateToken verify gsk e rq c =
           (\<lparr>req = rq,
             res = Some \<lparr>status = 401,
                         body = [(''error'', JStr ''Access denied. No token provided.'')]\<rparr>,
             next_called = False\<rparr>, c)"
    by (simp only: authenticateToken_falsy reject_def)
next
  assume h: "\<not> (case authorization rq of
        None \<Rightarrow> True
      | Some h \<Rightarrow>
          takeWhile (\<lambda>x. x \<noteq> CHR '' '') (drop 1 (dropWhile (\<lambda>x. x \<noteq> CHR '' '') h)) = [])"
  then have n: "\<not> (token_of (authorization rq) = None \<or> token_of (authorization rq) = Some [])"
    by (simp add: token_of_falsy)
  then obtain t where t: "token_of (authorization rq) = Some t" "t \<noteq> []"
    by (cases "token_of (authorization rq)") auto
  from t obtain hd where hd: "authorization rq = Some hd" "hd \<noteq> []"
    by (cases "authorization rq") (auto simp: token_of_def split: if_splits)
  with t have "index (split (CHR '' '') hd) 1 = Some t"
    by (simp add: token_of_def)
  with t hd show "\<exists>h t. authorization rq = Some h \<and> index (split (CHR '' '') h) 1 = Some t \<and> t \<noteq> [] \<and>
           authenticateToken verify gsk e rq c =
             (case verify t (getKey gsk) (jwtOptions e) c of
                (Inl err, c') \<Rightarrow>
                  (\<lparr>req = rq,
                    res = Some \<lparr>status = 403, body = [(''error'', JStr ''Invalid or expired token.'')]\<rparr>,
                    next_called = False\<rparr>, c')
              | (Inr decoded, c') \<Rightarrow>
                  (\<lparr>req = rq\<lparr>user := Some (identity_of decoded)\<rparr>, res = None, next_called = True\<rparr>, c'))"
    by (auto simp: authenticateToken_verified reject_def continue_def split: prod.splits sum.splits)
qed


text \<open>
  The theorem at two requests: \<open>Bearer\<close> with no token part is answered 401 though the
  verifier would accept anything; \<open>Bearer abc\<close> reaches the verifier, which refuses it.
\<close>

theorem authenticateToken_missing_token_witness:
  "authenticateToken (accepting (sample_claims [''doctor''])) unreachable no_env
      \<lparr>authorization = Some ''Bearer'', user = None\<rparr> () =
     (\<lparr>req = \<lparr>authorization = Some ''Bearer'', user = None\<rparr>,
       res = Some \<lparr>status = 401,
                   body = [(''error'', JStr ''Access denied. No token provided.'')]\<rparr>,
       next_called = False\<rparr>, ())
   \<and> authenticateToken refusing unreachable no_env
      \<lparr>authorization = Some ''Bearer abc'', user = None\<rparr> () =
     (\<lparr>req = \<lparr>authorization = Some ''Bearer abc'', user = None\<rparr>,
       res = Some \<lparr>status = 403, body = [(''error'', JStr ''Invalid or expired token.'')]\<rparr>,
       next_called = False\<rparr>, ())"
  using authenticateToken_missing_token
          [of "\<lparr>authorization = Some ''Bearer'', user = None\<rparr>"
              "accepting (sample_claims [''doctor''])" unreachable no_env "()"]
        authenticateToken_missing_token
          [of "\<lparr>authorization = Some ''Bearer abc'', user = None\<rparr>"
              refusing unreachable no_env "()"]
  by (simp add: index_def refusing_def)

text \<open>
  C1 as stated fails for a wrong scheme word: the header \<open>Basic abc\<close> is not of the
  shape \<open>Bearer <token>\<close>, yet \<open>abc\<close> goes to the verifier, and when the verifier
  accepts it the request continues with an identity attached instead of a 401.
\<close>

theorem wrong_scheme_is_verified:
  "authenticateToken (accepting (sample_claims [''doctor''])) unreachable no_env
      \<lparr>authorization = Some ''Basic abc'', user = None\<rparr> () =
     (\<lparr>req = \<lparr>authorization = Some ''Basic abc'',
               user = Some \<lparr>user_id = ''42'', username = Some ''anna'', user_email = None,
                            roles = [''doctor'']\<rparr>\<rparr>,
       res = None,
       next_called = True\<rparr>, ())"
  by (simp add: authenticateToken_def token_of_def index_def accepting_def continue_def
        identity_of_def roles_of_def sample_claims_def)

subsection \<open>The identity attached on success\<close>

text \<open>
  C3, as amended. When the verifier accepts the token, \<open>req.user\<close> is set to the
  identity whose id is the token's \<open>sub\<close>, username its \<open>preferred_username\<close>, email
  its \<open>email\<close>, and whose roles are the token's realm roles exactly as the token spells
  them, the empty list when \<open>realm_access\<close> or its \<open>roles\<close> is absent. Lower-casing
  happens later, inside \<open>requireRole\<close>, on a copy.
\<close>

theorem authenticateToken_identity:
  "token_of (authorization rq) = Some t \<Longrightarrow> t \<noteq> [] \<Longrightarrow>
   verify t (getKey gsk) (jwtOptions e) c = (Inr decoded, c') \<Longrightarrow>
     user (req (fst (authenticateToken verify gsk e rq c))) =
       Some \<lparr>user_id = sub decoded,
             username = preferred_username decoded,
             user_email = email decoded,
             roles = (case realm_access decoded of
                        None \<Rightarrow> []
                      | Some ra \<Rightarrow> (case realm_roles ra of None \<Rightarrow> [] | Some rs \<Rightarrow> rs))\<rparr>"
  by (simp add: authenticateToken_verified continue_def identity_of_def roles_of_def
        split: option.splits)

theorem authenticateToken_identity_witness:
  "user (req (fst (authenticateToken (accepting (sample_claims [''doctor''])) unreachable no_env
      \<lparr>authorization = Some ''Bearer abc'', user = None\<rparr> ()))) =
     Some \<lparr>user_id = ''42'', username = Some ''anna'', user_email = None, roles = [''doctor'']\<rparr>"
  using authenticateToken_identity
          [of "\<lparr>authorization = Some ''Bearer abc'', user = None\<rparr>" "''abc''"
              "accepting (sample_claims [''doctor''])" unreachable no_env "()"
              "sample_claims [''doctor'']" "()"]
  by (simp add: token_of_def index_def accepting_def sample_claims_def)

text \<open>
  C3 as stated fails on the roles: a token with the realm role \<open>Doctor\<close> leaves
  \<open>Doctor\<close> in \<open>req.user.roles\<close>, not its lower-cased form \<open>doctor\<close>.
\<close>

theorem roles_not_lower_cased:
  "map_option roles (user (req (fst (authenticateToken (accepting (sample_claims [''Doctor'']))
      unreachable no_env \<lparr>authorization = Some ''Bearer abc'', user = None\<rparr> ())))) =
     Some [''Doctor'']
   \<and> map ascii_lower [''Doctor''] = [''doctor'']"
  by (simp add: authenticateToken_def token_of_def index_def accepting_def continue_def
        identity_of_def roles_of_def sample_claims_def ascii_lower_def ascii_lower_char_def)

subsection \<open>All or nothing\<close>

lemma authenticateToken_no_token:
  "token_of (authorization rq) = None \<or> token_of (authorization rq) = Some [] \<Longrightarrow>
     fst (authenticateToken verify gsk e rq c) =
       \<lparr>req = rq,
        res = Some \<lparr>status = 401,
                    body = [(''error'', JStr ''Access denied. No token provided.'')]\<rparr>,
        next_called = False\<rparr>"
  by (simp add: authenticateToken_falsy reject_def)

lemma authenticateToken_refused:
  "token_of (authorization rq) = Some t \<Longrightarrow> t \<noteq> [] \<Longrightarrow>
   fst (verify t (getKey gsk) (jwtOptions e) c) = Inl err \<Longrightarrow>
     fst (authenticateToken verify gsk e rq c) =
       \<lparr>req = rq,
        res = Some \<lparr>status = 403, body = [(''error'', JStr ''Invalid or expired token.'')]\<rparr>,
        next_called = False\<rparr>"
  by (cases "verify t (getKey gsk) (jwtOptions e) c")
     (simp add: authenticateToken_verified reject_def)

lemma authenticateToken_accepted:
  "token_of (authorization rq) = Some t \<Longrightarrow> t \<noteq> [] \<Longrightarrow>
   fst (verify t (getKey gsk) (jwtOptions e) c) = Inr decoded \<Longrightarrow>
     fst (authenticateToken verify gsk e rq c) =
       \<lparr>req = rq\<lparr>user := Some (identity_of decoded)\<rparr>, res = None, next_called = True\<rparr>"
  by (cases "verify t (getKey gsk) (jwtOptions e) c")
     (simp add: authenticateToken_verified continue_def)

text \<open>
  C5. Whenever authentication fails, because the token is missing or because the verifier
  (key resolution, signature and claim checks) reports an error, \<open>authenticateToken\<close>
  does not call \<open>next\<close>, leaves the request exactly as it was (no identity is attached)
  and answers 401 or 403. There are only two outcomes: the identity built from the claims
  the verifier returned is attached, nothing is sent and \<open>next\<close> is called; or a 401/403
  response is sent, \<open>next\<close> is not called and the request is untouched.
\<close>

theorem authenticateToken_all_or_nothing:
  "((token_of (authorization rq) = None \<or> token_of (authorization rq) = Some [] \<or>
      (\<exists>t err. token_of (authorization rq) = Some t \<and> t \<noteq> [] \<and>
         fst (verify t (getKey gsk) (jwtOptions e) c) = Inl err))
     \<longrightarrow> \<not> next_called (fst (authenticateToken verify gsk e rq c)) \<and>
         req (fst (authenticateToken verify gsk e rq c)) = rq \<and>
         (map_option status (res (fst (authenticateToken verify gsk e rq c))) = Some 401 \<or>
          map_option status (res (fst (authenticateToken verify gsk e rq c))) = Some 403))
   \<and> ((\<exists>t decoded. token_of (authorization rq) = Some t \<and> t \<noteq> [] \<and>
          fst (verify t (getKey gsk) (jwtOptions e) c) = Inr decoded \<and>
          fst (authenticateToken verify gsk e rq c) =
            \<lparr>req = rq\<lparr>user := Some (identity_of decoded)\<rparr>, res = None, next_called = True\<rparr>)
       \<or> (\<exists>r. fst (authenticateToken verify gsk e rq c) =
                 \<lparr>req = rq, res = Some r, next_called = False\<rparr> \<and>
               (status r = 401 \<or> status r = 403)))"
proof (cases "token_of (authorization rq) = None \<or> token_of (authorization rq) = Some []")
  case True
  from authenticateToken_no_token [of rq verify gsk e c] True
  show ?thesis by auto
next
  case False
  then obtain t where t: "token_of (authorization rq) = Some t" "t \<noteq> []"
    by (cases "token_of (authorization rq)") auto
  show ?thesis
  proof (cases "fst (verify t (getKey gsk) (jwtOptions e) c)")
    case (Inl err)
    from authenticateToken_refused [of rq t verify gsk e c err] t Inl
    show ?thesis by auto
  next
    case (Inr decoded)
    from authenticateToken_accepted [of rq t verify gsk e c decoded] t Inr
    show ?thesis by auto
  qed
qed

theorem authenticateToken_all_or_nothing_witness:
  "fst (authenticateToken refusing unreachable no_env
       \<lparr>authorization = Some ''Bearer abc'', user = None\<rparr> ()) =
     \<lparr>req = \<lparr>authorization = Some ''Bearer abc'', user = None\<rparr>,
      res = Some \<lparr>status = 403, body = [(''error'', JStr ''Invalid or expired token.'')]\<rparr>,
      next_called = False\<rparr>
   \<and> \<not> next_called (fst (authenticateToken (accepting (sample_claims [''doctor''])) unreachable
         no_env \<lparr>authorization = None, user = None\<rparr> ()))
   \<and> fst (authenticateToken (accepting (sample_claims [''doctor''])) unreachable no_env
       \<lparr>authorization = Some ''Bearer abc'', user = None\<rparr> ()) =
     \<lparr>req = \<lparr>authorization = Some ''Bearer abc'',
              user = Some (identity_of (sample_claims [''doctor'']))\<rparr>,
      res = None, next_called = True\<rparr>"
  using authenticateToken_all_or_nothing
          [of "\<lparr>authorization = Some ''Bearer abc'', user = None\<rparr>" refusing unreachable
              no_env "()"]
        authenticateToken_all_or_nothing
          [of "\<lparr>authorization = None, user = None\<rparr>"
              "accepting (sample_claims [''doctor''])" unreachable no_env "()"]
        authenticateToken_all_or_nothing
          [of "\<lparr>authorization = Some ''Bearer abc'', user = None\<rparr>"
              "accepting (sample_claims [''doctor''])" unreachable no_env "()"]
  by (simp add: authenticateToken_def token_of_def index_def refusing_def accepting_def
        reject_def continue_def)

section \<open>What the role gates decide\<close>

lemma hasRole_iff:
  "list_ex (\<lambda>role. toLowerCase role \<in> set (map toLowerCase rs)) allowed \<longleftrightarrow>
     (\<exists>r\<in>set rs. \<exists>a\<in>set allowed. toLowerCase r = toLowerCase a)"
  unfolding list_ex_iff set_map image_iff by metis

lemma requireRole_allowed:
  "user rq = Some u \<Longrightarrow> \<exists>r\<in>set (roles u). \<exists>a\<in>set allowed. toLowerCase r = toLowerCase a \<Longrightarrow>
     requireRole toLowerCase allowed rq = \<lparr>req = rq, res = None, next_called = True\<rparr>"
  using hasRole_iff [of toLowerCase "roles u" allowed]
  by (simp add: requireRole_def continue_def)

lemma requireRole_denied:
  "user rq = Some u \<Longrightarrow> \<not> (\<exists>r\<in>set (roles u). \<exists>a\<in>set allowed. toLowerCase r = toLowerCase a) \<Longrightarrow>
     requireRole toLowerCase allowed rq =
       \<lparr>req = rq,
        res = Some \<lparr>status = 403,
                    body = [(''error'', JStr ''Access denied. Insufficient permissions.''),
                            (''required'', JArr allowed),
                            (''userRoles'', JArr (map toLowerCase (roles u)))]\<rparr>,
        next_called = False\<rparr>"
  using hasRole_iff [of toLowerCase "roles u" allowed]
  by (simp add: requireRole_def reject_def)

lemma snd_unique:
  "distinct (map snd xs) \<Longrightarrow> (a, l) \<in> set xs \<Longrightarrow> (b, l) \<in> set xs \<Longrightarrow> a = b"
  by (induction xs) (auto simp: image_iff)

text \<open>
  A table that sends each of its keys to a value that is not a key, no value twice:
  two arguments have the same image exactly when they are equal or paired by the table.
\<close>

lemma fold_general:
  fixes xs :: "('a \<times> 'a) list"
  assumes d1: "distinct (map fst xs)" and d2: "distinct (map snd xs)"
    and dj: "set (map fst xs) \<inter> set (map snd xs) = {}"
  shows "((case map_of xs c of None \<Rightarrow> c | Some l \<Rightarrow> l) =
          (case map_of xs d of None \<Rightarrow> d | Some l \<Rightarrow> l)) \<longleftrightarrow>
         (c = d \<or> (c, d) \<in> set xs \<or> (d, c) \<in> set xs)"
proof -
  have some: "\<And>x l. map_of xs x = Some l \<longleftrightarrow> (x, l) \<in> set xs"
    using d1 by (simp add: map_of_eq_Some_iff)
  have low: "\<And>x l. (x, l) \<in> set xs \<Longrightarrow> map_of xs l = None"
  proof -
    fix x l assume "(x, l) \<in> set xs"
    then have "l \<in> set (map snd xs)" by force
    with dj have "l \<notin> set (map fst xs)" by blast
    then show "map_of xs l = None" by (simp add: map_of_eq_None_iff)
  qed
  show ?thesis
  proof (cases "map_of xs c")
    case None
    note c = None
    show ?thesis
    proof (cases "map_of xs d")
      case None
      with c show ?thesis using some by (metis option.distinct(1) option.simps(4))
    next
      case (Some l)
      with c show ?thesis using some low
        by (metis option.distinct(1) option.simps(4) option.simps(5))
    qed
  next
    case (Some k)
    note c = Some
    show ?thesis
    proof (cases "map_of xs d")
      case None
      with c show ?thesis using some low
        by (metis option.distinct(1) option.simps(4) option.simps(5))
    next
      case (Some l)
      with c show ?thesis using some low snd_unique [OF d2]
        by (metis option.distinct(1) option.inject option.simps(5))
    qed
  qed
qed

lemma ascii_lower_char_eq_iff:
  "ascii_lower_char c = ascii_lower_char d \<longleftrightarrow> same_letter c d"
  unfolding ascii_lower_char_def same_letter_def
  by (rule fold_general) simp_all

text \<open>Equal after ASCII lower-casing is the same as equal ignoring case.\<close>

lemma ascii_lower_eq_iff:
  "ascii_lower a = ascii_lower b \<longleftrightarrow> same_ignoring_case a b"
  unfolding ascii_lower_def same_ignoring_case_def
  by (simp add: list.rel_map list.rel_eq [symmetric] ascii_lower_char_eq_iff del: list.rel_eq)

lemma common_role_ignoring_case:
  assumes "\<forall>s. is_ascii s \<longrightarrow> toLowerCase s = ascii_lower s"
    and "\<forall>r\<in>set rs. is_ascii r" and "\<forall>a\<in>set allowed. is_ascii a"
  shows "(\<exists>r\<in>set rs. \<exists>a\<in>set allowed. toLowerCase r = toLowerCase a) \<longleftrightarrow>
         (\<exists>r\<in>set rs. \<exists>a\<in>set allowed. same_ignoring_case r a)"
proof -
  have "toLowerCase r = toLowerCase a \<longleftrightarrow> same_ignoring_case r a"
    if "r \<in> set rs" and "a \<in> set allowed" for r a
    using that assms by (simp add: ascii_lower_eq_iff)
  then show ?thesis by blast
qed

text \<open>
  C2. For a request that carries an identity, and for every lower-casing function the
  language may supply, the gate \<open>requireRole required\<close> lets the request through (calls
  \<open>next\<close>, sends nothing, leaves the request as it is) if and only if some role of the
  identity and some required role are equal after lower-casing both; otherwise, and only
  then, it answers 403 with the required roles and the identity's lower-cased roles in the
  body. When the lower-casing acts on ASCII strings as the built-in does and all the role
  names are ASCII, that is: if and only if some role of the identity and some required
  role are the same ignoring case. In particular roles \<open>staff\<close> against required
  \<open>doctor\<close> is denied with 403 (the two words differ after lower-casing), and roles
  \<open>doctor, staff\<close> against required \<open>doctor\<close> is allowed.
\<close>

theorem requireRole_allows_iff_common_role:
  "user rq = Some u \<Longrightarrow>
     (requireRole toLowerCase required rq = \<lparr>req = rq, res = None, next_called = True\<rparr>
        \<longleftrightarrow> (\<exists>r\<in>set (roles u). \<exists>a\<in>set required. toLowerCase r = toLowerCase a))
   \<and> (requireRole toLowerCase required rq =
         \<lparr>req = rq,
          res = Some \<lparr>status = 403,
                      body = [(''error'', JStr ''Access denied. Insufficient permissions.''),
                              (''required'', JArr required),
                              (''userRoles'', JArr (map toLowerCase (roles u)))]\<rparr>,
          next_called = False\<rparr>
        \<longleftrightarrow> \<not> (\<exists>r\<in>set (roles u). \<exists>a\<in>set required. toLowerCase r = toLowerCase a))
   \<and> ((\<forall>s. is_ascii s \<longrightarrow> toLowerCase s = ascii_lower s) \<and>
       (\<forall>r\<in>set (roles u). is_ascii r) \<and> (\<forall>a\<in>set required. is_ascii a) \<longrightarrow>
         (requireRole toLowerCase required rq = \<lparr>req = rq, res = None, next_called = True\<rparr>
            \<longleftrightarrow> (\<exists>r\<in>set (roles u). \<exists>a\<in>set required. same_ignoring_case r a)))
   \<and> (roles u = [''staff''] \<and> required = [''doctor''] \<and>
       toLowerCase ''staff'' \<noteq> toLowerCase ''doctor'' \<longrightarrow>
         \<not> next_called (requireRole toLowerCase required rq) \<and>
         map_option status (res (requireRole toLowerCase required rq)) = Some 403)
   \<and> (roles u = [''doctor'', ''staff''] \<and> required = [''doctor''] \<longrightarrow>
         next_called (requireRole toLowerCase required rq) \<and>
         res (requireRole toLowerCase required rq) = None)"
proof (cases "\<exists>r\<in>set (roles u). \<exists>a\<in>set required. toLowerCase r = toLowerCase a")
  case True
  assume u: "user rq = Some u"
  have "requireRole toLowerCase required rq = \<lparr>req = rq, res = None, next_called = True\<rparr>"
    using requireRole_allowed [OF u True] .
  with True common_role_ignoring_case [of toLowerCase "roles u" required] show ?thesis
    by auto
next
  case False
  assume u: "user rq = Some u"
  have "requireRole toLowerCase required rq =
       \<lparr>req = rq,
        res = Some \<lparr>status = 403,
                    body = [(''error'', JStr ''Access denied. Insufficient permissions.''),
                            (''required'', JArr required),
                            (''userRoles'', JArr (map toLowerCase (roles u)))]\<rparr>,
        next_called = False\<rparr>"
    using requireRole_denied [OF u False] .
  with False common_role_ignoring_case [of toLowerCase "roles u" required] show ?thesis
    by auto
qed

text \<open>
  The theorem with the ASCII lower-casing: \<open>Doctor, staff\<close> passes the gate for
  \<open>doctor\<close> although the cases differ, and \<open>staff\<close> alone is answered 403.
\<close>

theorem requireRole_allows_iff_common_role_witness:
  "requireRole ascii_lower [''doctor'']
      \<lparr>authorization = None, user = Some (sample_user [''Doctor'', ''staff''])\<rparr> =
     \<lparr>req = \<lparr>authorization = None, user = Some (sample_user [''Doctor'', ''staff''])\<rparr>,
      res = None, next_called = True\<rparr>
   \<and> (\<exists>r\<in>set [''Doctor'', ''staff'']. \<exists>a\<in>set [''doctor'']. same_ignoring_case r a)
   \<and> ascii_lower ''staff'' \<noteq> ascii_lower ''doctor''
   \<and> map_option status (res (requireRole ascii_lower [''doctor'']
         \<lparr>authorization = None, user = Some (sample_user [''staff''])\<rparr>)) = Some 403
   \<and> \<not> next_called (requireRole ascii_lower [''doctor'']
         \<lparr>authorization = None, user = Some (sample_user [''staff''])\<rparr>)"
  using requireRole_allows_iff_common_role
          [where rq = "\<lparr>authorization = None, user = Some (sample_user [''Doctor'', ''staff''])\<rparr>"
             and u = "sample_user [''Doctor'', ''staff'']" and required = "[''doctor'']"
             and toLowerCase = ascii_lower]
        requireRole_allows_iff_common_role
          [where rq = "\<lparr>authorization = None, user = Some (sample_user [''staff''])\<rparr>"
             and u = "sample_user [''staff'']" and required = "[''doctor'']"
             and toLowerCase = ascii_lower]
  by (simp add: sample_user_def ascii_lower_def ascii_lower_char_def is_ascii_def
        same_ignoring_case_def same_letter_def)

text \<open>
  C9. \<open>requireAuthenticated\<close> answers 401 \<open>Not authenticated\<close> (without calling
  \<open>next\<close>) if and only if the request carries no identity; with any identity attached
  it calls \<open>next\<close> and sends nothing, whatever the identity's roles are.
\<close>

theorem requireAuthenticated_denies_iff_no_identity:
  "(requireAuthenticated rq =
       \<lparr>req = rq,
        res = Some \<lparr>status = 401, body = [(''error'', JStr ''Not authenticated'')]\<rparr>,
        next_called = False\<rparr>) = (user rq = None)
   \<and> (\<forall>u. user rq = Some u \<longrightarrow>
         requireAuthenticated rq = \<lparr>req = rq, res = None, next_called = True\<rparr>)"
  by (cases "user rq") (simp_all add: requireAuthenticated_def reject_def continue_def)

theorem requireAuthenticated_denies_iff_no_identity_witness:
  "requireAuthenticated \<lparr>authorization = None, user = Some (sample_user [])\<rparr> =
     \<lparr>req = \<lparr>authorization = None, user = Some (sample_user [])\<rparr>, res = None,
      next_called = True\<rparr>
   \<and> requireAuthenticated \<lparr>authorization = None, user = None\<rparr> =
     \<lparr>req = \<lparr>authorization = None, user = None\<rparr>,
      res = Some \<lparr>status = 401, body = [(''error'', JStr ''Not authenticated'')]\<rparr>,
      next_called = False\<rparr>"
  using requireAuthenticated_denies_iff_no_identity
          [of "\<lparr>authorization = None, user = Some (sample_user [])\<rparr>"]
        requireAuthenticated_denies_iff_no_identity
          [of "\<lparr>authorization = None, user = None\<rparr>"]
  by simp

text \<open>
  C10. Every gate made by \<open>requireRole\<close> looks for the identity first: on a request
  without one it answers 401 \<open>Not authenticated\<close> and does not call \<open>next\<close>, and
  the answer is the same for every list of allowed roles and every lower-casing function,
  so no role is compared.
\<close>

theorem requireRole_checks_identity_first:
  "user rq = None \<Longrightarrow>
     requireRole toLowerCase allowedRoles rq =
       \<lparr>req = rq,
        res = Some \<lparr>status = 401, body = [(''error'', JStr ''Not authenticated'')]\<rparr>,
        next_called = False\<rparr>"
  by (simp add: requireRole_def reject_def)

theorem requireRole_checks_identity_first_witness:
  "requireRole ascii_lower [''doctor''] \<lparr>authorization = Some ''Bearer abc'', user = None\<rparr> =
     \<lparr>req = \<lparr>authorization = Some ''Bearer abc'', user = None\<rparr>,
      res = Some \<lparr>status = 401, body = [(''error'', JStr ''Not authenticated'')]\<rparr>,
      next_called = False\<rparr>"
  using requireRole_checks_identity_first
          [of "\<lparr>authorization = Some ''Bearer abc'', user = None\<rparr>" ascii_lower "[''doctor'']"]
  by simp

section \<open>Errors and status codes\<close>

lemma getKey_error:
  "gsk (kid header) c = (Inl kerr, c') \<Longrightarrow> getKey gsk header c = (Inl kerr, c')"
  by (simp add: getKey_def)

lemma jwt_verify_key_error:
  "decode L t = Some (header, payload) \<Longrightarrow> key_callback header c = (Inl kerr, c') \<Longrightarrow>
     jwt_verify L t key_callback options c = (Inl InvalidTokenError, c')"
  by (simp add: jwt_verify_def)

text \<open>
  C4. Each kind of failure has its status. A missing token is answered 401. Every error
  the verifier reports, whatever its cause (bad signature, expiry, wrong issuer or
  algorithm, or a key that could not be resolved), is answered 403 with the one body
  \<open>{ error: 'Invalid or expired token.' }\<close>; \<open>getKey\<close> hands an error of the JWKS
  client to the verifier unchanged. With the verifier of the specification, a token whose
  key cannot be resolved is answered 403: the error of the JWKS client becomes an
  \<open>InvalidTokenError\<close>, the request is untouched and \<open>next\<close> is not called. A gate
  reached without an identity answers 401, both \<open>requireAuthenticated\<close> and
  \<open>requireRole\<close>. An identity without any of the required roles is answered 403 with a
  body that lists the required roles and the identity's roles, lower-cased by whatever
  lower-casing function the language supplies.
\<close>

theorem error_statuses:
  "(token_of (authorization rq) = None \<or> token_of (authorization rq) = Some [] \<longrightarrow>
      res (fst (authenticateToken verify gsk e rq c)) =
        Some \<lparr>status = 401, body = [(''error'', JStr ''Access denied. No token provided.'')]\<rparr>)
   \<and> (\<forall>t err. token_of (authorization rq) = Some t \<and> t \<noteq> [] \<and>
          fst (verify t (getKey gsk) (jwtOptions e) c) = Inl err \<longrightarrow>
      res (fst (authenticateToken verify gsk e rq c)) =
        Some \<lparr>status = 403, body = [(''error'', JStr ''Invalid or expired token.'')]\<rparr>)
   \<and> (\<forall>kerr c'. gsk (kid header) c = (Inl kerr, c') \<longrightarrow>
          getKey gsk header c = (Inl kerr, c'))
   \<and> (\<forall>t payload kerr c'. token_of (authorization rq) = Some t \<and> t \<noteq> [] \<and>
          decode L t = Some (header, payload) \<and> gsk (kid header) c = (Inl kerr, c') \<longrightarrow>
      jwt_verify L t (getKey gsk) (jwtOptions e) c = (Inl InvalidTokenError, c') \<and>
      authenticateToken (jwt_verify L) gsk e rq c =
        (\<lparr>req = rq,
          res = Some \<lparr>status = 403, body = [(''error'', JStr ''Invalid or expired token.'')]\<rparr>,
          next_called = False\<rparr>, c'))
   \<and> (user rq = None \<longrightarrow>
        res (requireAuthenticated rq) =
          Some \<lparr>status = 401, body = [(''error'', JStr ''Not authenticated'')]\<rparr> \<and>
        res (requireRole toLowerCase required rq) =
          Some \<lparr>status = 401, body = [(''error'', JStr ''Not authenticated'')]\<rparr>)
   \<and> (\<forall>u. user rq = Some u \<and>
          \<not> (\<exists>r\<in>set (roles u). \<exists>a\<in>set required. toLowerCase r = toLowerCase a) \<longrightarrow>
        res (requireRole toLowerCase required rq) =
          Some \<lparr>status = 403,
                body = [(''error'', JStr ''Access denied. Insufficient permissions.''),
                        (''required'', JArr required),
                        (''userRoles'', JArr (map toLowerCase (roles u)))]\<rparr>)"
proof (intro conjI allI impI)
  assume "token_of (authorization rq) = None \<or> token_of (authorization rq) = Some []"
  then show "res (fst (authenticateToken verify gsk e rq c)) =
        Some \<lparr>status = 401, body = [(''error'', JStr ''Access denied. No token provided.'')]\<rparr>"
    by (simp add: authenticateToken_no_token)
next
  fix t err
  assume "token_of (authorization rq) = Some t \<and> t \<noteq> [] \<and>
          fst (verify t (getKey gsk) (jwtOptions e) c) = Inl err"
  then show "res (fst (authenticateToken verify gsk e rq c)) =
        Some \<lparr>status = 403, body = [(''error'', JStr ''Invalid or expired token.'')]\<rparr>"
    by (simp add: authenticateToken_refused)
next
  fix kerr c'
  assume "gsk (kid header) c = (Inl kerr, c')"
  then show "getKey gsk header c = (Inl kerr, c')"
    by (rule getKey_error)
next
  fix t payload kerr c'
  assume a: "token_of (authorization rq) = Some t \<and> t \<noteq> [] \<and>
          decode L t = Some (header, payload) \<and> gsk (kid header) c = (Inl kerr, c')"
  then have "getKey gsk header c = (Inl kerr, c')"
    by (simp add: getKey_error)
  with a show "jwt_verify L t (getKey gsk) (jwtOptions e) c = (Inl InvalidTokenError, c')"
    by (simp add: jwt_verify_key_error)
next
  fix t payload kerr c'
  assume a: "token_of (authorization rq) = Some t \<and> t \<noteq> [] \<and>
          decode L t = Some (header, payload) \<and> gsk (kid header) c = (Inl kerr, c')"
  then have "getKey gsk header c = (Inl kerr, c')"
    by (simp add: getKey_error)
  with a have "jwt_verify L t (getKey gsk) (jwtOptions e) c = (Inl InvalidTokenError, c')"
    by (simp add: jwt_verify_key_error)
  with a show "authenticateToken (jwt_verify L) gsk e rq c =
        (\<lparr>req = rq,
          res = Some \<lparr>status = 403, body = [(''error'', JStr ''Invalid or expired token.'')]\<rparr>,
          next_called = False\<rparr>, c')"
    by (simp add: authenticateToken_verified reject_def)
next
  assume "user rq = None"
  then show "res (requireAuthenticated rq) =
          Some \<lparr>status = 401, body = [(''error'', JStr ''Not authenticated'')]\<rparr>"
    by (simp add: requireAuthenticated_def reject_def)
next
  assume "user rq = None"
  then show "res (requireRole toLowerCase required rq) =
          Some \<lparr>status = 401, body = [(''error'', JStr ''Not authenticated'')]\<rparr>"
    by (simp add: requireRole_def reject_def)
next
  fix u
  assume "user rq = Some u \<and>
          \<not> (\<exists>r\<in>set (roles u). \<exists>a\<in>set required. toLowerCase r = toLowerCase a)"
  then show "res (requireRole toLowerCase required rq) =
          Some \<lparr>status = 403,
                body = [(''error'', JStr ''Access denied. Insufficient permissions.''),
                        (''required'', JArr required),
                        (''userRoles'', JArr (map toLowerCase (roles u)))]\<rparr>"
    by (simp add: requireRole_denied)
qed

text \<open>
  The theorem at two requests. Without a header and without an identity: 401 from the
  authenticator and from both gates. With the token \<open>good\<close>, an unreachable key set and
  an identity whose only role is \<open>Staff\<close>: the verifier of the specification reports
  \<open>InvalidTokenError\<close> and the authenticator answers 403; so it does for the verifier
  that refuses everything; and the gate for \<open>doctor\<close> answers 403 with both role lists.
\<close>

theorem error_statuses_witness:
  "map_option status (res (fst (authenticateToken refusing unreachable no_env
       \<lparr>authorization = None, user = None\<rparr> ()))) = Some 401
   \<and> map_option status (res (requireAuthenticated \<lparr>authorization = None, user = None\<rparr>)) = Some 401
   \<and> map_option status (res (requireRole ascii_lower [''doctor'']
       \<lparr>authorization = None, user = None\<rparr>)) = Some 401
   \<and> map_option status (res (fst (authenticateToken refusing unreachable no_env
       \<lparr>authorization = Some ''Bearer good'', user = Some (sample_user [''Staff''])\<rparr> ()))) = Some 403
   \<and> getKey unreachable \<lparr>alg = ''RS256'', kid = ''k1''\<rparr> () = (Inl (), ())
   \<and> jwt_verify (sample_library 1100) ''good'' (getKey unreachable) (jwtOptions no_env) () =
       (Inl InvalidTokenError, ())
   \<and> authenticateToken (jwt_verify (sample_library 1100)) unreachable no_env
       \<lparr>authorization = Some ''Bearer good'', user = Some (sample_user [''Staff''])\<rparr> () =
       (\<lparr>req = \<lparr>authorization = Some ''Bearer good'', user = Some (sample_user [''Staff''])\<rparr>,
         res = Some \<lparr>status = 403, body = [(''error'', JStr ''Invalid or expired token.'')]\<rparr>,
         next_called = False\<rparr>, ())
   \<and> res (requireRole ascii_lower [''doctor'']
        \<lparr>authorization = Some ''Bearer good'', user = Some (sample_user [''Staff''])\<rparr>) =
       Some \<lparr>status = 403,
             body = [(''error'', JStr ''Access denied. Insufficient permissions.''),
                     (''required'', JArr [''doctor'']),
                     (''userRoles'', JArr [''staff''])]\<rparr>"
proof -
  let ?anon = "\<lparr>authorization = None, user = None\<rparr>"
  let ?staff = "\<lparr>authorization = Some ''Bearer good'', user = Some (sample_user [''Staff''])\<rparr>"
  let ?header = "\<lparr>alg = ''RS256'', kid = ''k1''\<rparr>"
  have tok: "token_of (authorization ?staff) = Some ''good''"
    by (simp add: token_of_def index_def)
  have dec: "decode (sample_library 1100) ''good'' = Some (?header, sample_claims [''doctor''])"
    by (simp add: sample_library_def sample_tokens_def)
  have key: "unreachable (kid ?header) () = (Inl (), ())"
    by (simp add: unreachable_def)
  have ref: "fst (refusing ''good'' (getKey unreachable) (jwtOptions no_env) ()) =
        Inl ''invalid signature''"
    by (simp add: refusing_def)
  have low: "\<not> (\<exists>r\<in>set (roles (sample_user [''Staff''])). \<exists>a\<in>set [''doctor''].
        ascii_lower r = ascii_lower a)"
    by (simp add: sample_user_def ascii_lower_def ascii_lower_char_def)
  have lowered: "map ascii_lower (roles (sample_user [''Staff''])) = [''staff'']"
    by (simp add: sample_user_def ascii_lower_def ascii_lower_char_def)
  from error_statuses
         [where rq = ?anon and verify = refusing and gsk = unreachable and e = no_env
            and c = "()" and header = ?header and L = "sample_library 1100"
            and toLowerCase = ascii_lower and required = "[''doctor'']"]
       error_statuses
         [where rq = ?staff and verify = refusing and gsk = unreachable and e = no_env
            and c = "()" and header = ?header and L = "sample_library 1100"
            and toLowerCase = ascii_lower and required = "[''doctor'']"]
       tok dec key ref low lowered
  show ?thesis
    by (simp add: token_of_def)
qed

section \<open>The authenticator over the verifier of the specification\<close>

lemma authenticateToken_next:
  assumes "next_called (fst (authenticateToken verify gsk e rq c))"
  shows "\<exists>t d. token_of (authorization rq) = Some t \<and> t \<noteq> [] \<and>
           fst (verify t (getKey gsk) (jwtOptions e) c) = Inr d"
proof (cases "token_of (authorization rq) = None \<or> token_of (authorization rq) = Some []")
  case True
  from authenticateToken_no_token [of rq verify gsk e c] True assms
  show ?thesis by auto
next
  case False
  then obtain t where t: "token_of (authorization rq) = Some t" "t \<noteq> []"
    by (cases "token_of (authorization rq)") auto
  show ?thesis
  proof (cases "fst (verify t (getKey gsk) (jwtOptions e) c)")
    case (Inl err)
    from authenticateToken_refused [of rq t verify gsk e c err] t Inl assms
    show ?thesis by auto
  next
    case (Inr d)
    with t show ?thesis by blast
  qed
qed

lemma jwt_verify_accepts:
  assumes "fst (jwt_verify L t kc opts c) = Inr d"
  shows "\<exists>header key. decode L t = Some (header, d) \<and> fst (kc header c) = Inr key \<and>
           alg header \<in> set (algorithms opts) \<and> signature_valid L (alg header) key t \<and>
           iss d = issuer opts \<and>
           iat d - clockTolerance L \<le> clock L \<and> clock L \<le> exp d + clockTolerance L"
  using assms
  by (auto simp: jwt_verify_def split: option.splits prod.splits sum.splits if_splits)

lemma jwt_verify_rejects:
  assumes "decode L t = Some (header, payload)"
    and "alg header \<notin> set (algorithms opts) \<or> iss payload \<noteq> issuer opts \<or>
         exp payload + clockTolerance L < clock L \<or> clock L < iat payload - clockTolerance L"
  shows "fst (jwt_verify L t kc opts c) = Inl InvalidTokenError"
  using assms
  by (auto simp: jwt_verify_def split: option.splits prod.splits sum.splits if_splits)

lemma algorithms_jwtOptions: "algorithms (jwtOptions e) = [''RS256'']"
  by (simp add: jwtOptions_def)

text \<open>
  C6. The options the middleware passes fix the algorithms to \<open>RS256\<close> alone. A token
  whose header declares any other algorithm is answered 403, the request untouched and
  \<open>next\<close> not called. And whenever a request passes, its token declared \<open>RS256\<close> and
  its signature was checked under \<open>RS256\<close> against the key that \<open>getKey\<close> resolved for
  its header.
\<close>

theorem only_RS256_tokens_pass:
  "algorithms (jwtOptions e) = [''RS256'']
   \<and> (\<forall>t header payload.
        token_of (authorization rq) = Some t \<and> t \<noteq> [] \<and>
        decode L t = Some (header, payload) \<and> alg header \<noteq> ''RS256'' \<longrightarrow>
          fst (authenticateToken (jwt_verify L) gsk e rq c) =
            \<lparr>req = rq,
             res = Some \<lparr>status = 403, body = [(''error'', JStr ''Invalid or expired token.'')]\<rparr>,
             next_called = False\<rparr>)
   \<and> (next_called (fst (authenticateToken (jwt_verify L) gsk e rq c)) \<longrightarrow>
        (\<exists>t header payload key.
           token_of (authorization rq) = Some t \<and> decode L t = Some (header, payload) \<and>
           alg header = ''RS256'' \<and> fst (getKey gsk header c) = Inr key \<and>
           signature_valid L ''RS256'' key t))"
proof (intro conjI allI impI)
  show "algorithms (jwtOptions e) = [''RS256'']"
    by (rule algorithms_jwtOptions)
next
  fix t header payload
  assume a: "token_of (authorization rq) = Some t \<and> t \<noteq> [] \<and>
        decode L t = Some (header, payload) \<and> alg header \<noteq> ''RS256''"
  then have "fst (jwt_verify L t (getKey gsk) (jwtOptions e) c) = Inl InvalidTokenError"
    using jwt_verify_rejects [of L t header payload "jwtOptions e" "getKey gsk" c]
    by (simp add: algorithms_jwtOptions)
  with a show "fst (authenticateToken (jwt_verify L) gsk e rq c) =
            \<lparr>req = rq,
             res = Some \<lparr>status = 403, body = [(''error'', JStr ''Invalid or expired token.'')]\<rparr>,
             next_called = False\<rparr>"
    using authenticateToken_refused [of rq t "jwt_verify L" gsk e c InvalidTokenError]
    by simp
next
  assume "next_called (fst (authenticateToken (jwt_verify L) gsk e rq c))"
  then obtain t d where t: "token_of (authorization rq) = Some t"
    and d: "fst (jwt_verify L t (getKey gsk) (jwtOptions e) c) = Inr d"
    using authenticateToken_next [of "jwt_verify L" gsk e rq c] by blast
  from jwt_verify_accepts [OF d] obtain header key where
    "decode L t = Some (header, d)" "fst (getKey gsk header c) = Inr key"
    "alg header \<in> set (algorithms (jwtOptions e))" "signature_valid L (alg header) key t"
    by blast
  with t show "\<exists>t header payload key.
           token_of (authorization rq) = Some t \<and> decode L t = Some (header, payload) \<and>
           alg header = ''RS256'' \<and> fst (getKey gsk header c) = Inr key \<and>
           signature_valid L ''RS256'' key t"
    by (auto simp: algorithms_jwtOptions)
qed

theorem only_RS256_tokens_pass_witness:
  "fst (authenticateToken (jwt_verify (sample_library 1100)) one_key no_env
      \<lparr>authorization = Some ''Bearer hs'', user = None\<rparr> ()) =
     \<lparr>req = \<lparr>authorization = Some ''Bearer hs'', user = None\<rparr>,
      res = Some \<lparr>status = 403, body = [(''error'', JStr ''Invalid or expired token.'')]\<rparr>,
      next_called = False\<rparr>
   \<and> next_called (fst (authenticateToken (jwt_verify (sample_library 1100)) one_key no_env
      \<lparr>authorization = Some ''Bearer good'', user = None\<rparr> ()))
   \<and> (\<exists>t header payload key.
         token_of (Some ''Bearer good'') = Some t \<and>
         decode (sample_library 1100) t = Some (header, payload) \<and>
         alg header = ''RS256'' \<and> fst (getKey one_key header ()) = Inr key \<and>
         signature_valid (sample_library 1100) ''RS256'' key t)"
proof -
  have n: "next_called (fst (authenticateToken (jwt_verify (sample_library 1100)) one_key no_env
      \<lparr>authorization = Some ''Bearer good'', user = None\<rparr> ()))"
    by (simp add: authenticateToken_def token_of_def index_def jwt_verify_def
          sample_library_def sample_tokens_def sample_signature_def sample_claims_def
          getKey_def getPublicKey_def one_key_def jwtOptions_def no_env_def or_default_def
          continue_def)
  have h: "token_of (authorization \<lparr>authorization = Some ''Bearer hs'', user = None\<rparr>) = Some ''hs'' \<and>
        ''hs'' \<noteq> [] \<and>
        decode (sample_library 1100) ''hs'' =
          Some (\<lparr>alg = ''HS256'', kid = ''k1''\<rparr>, sample_claims [''doctor'']) \<and>
        alg \<lparr>alg = ''HS256'', kid = ''k1''\<rparr> \<noteq> ''RS256''"
    by (simp add: token_of_def index_def sample_library_def sample_tokens_def)
  from only_RS256_tokens_pass
         [of no_env "\<lparr>authorization = Some ''Bearer hs'', user = None\<rparr>" "sample_library 1100"
             one_key "()"] h
       only_RS256_tokens_pass
         [of no_env "\<lparr>authorization = Some ''Bearer good'', user = None\<rparr>" "sample_library 1100"
             one_key "()"] n
  show ?thesis by simp
qed


text \<open>
  C7. The expected issuer is \<open>KEYCLOAK_ISSUER\<close>, or the built-in realm address when that
  is unset or empty. A request passes only if its token's issuer equals the expected one
  and the clock lies between \<open>iat\<close> and \<open>exp\<close>, each widened by the clock-skew
  tolerance. A token whose \<open>exp\<close> (plus the tolerance) lies before the clock, and a token
  with another issuer, is answered 403, the request untouched and \<open>next\<close> not called.
\<close>

theorem issuer_and_lifetime_checked:
  "issuer (jwtOptions e) =
     or_default (KEYCLOAK_ISSUER e)
       ''https://patientsystem-keycloak.app.cloud.cbh.kth.se/realms/patientsystem''
   \<and> (next_called (fst (authenticateToken (jwt_verify L) gsk e rq c)) \<longrightarrow>
        (\<exists>t header payload.
           token_of (authorization rq) = Some t \<and> decode L t = Some (header, payload) \<and>
           iss payload = issuer (jwtOptions e) \<and>
           iat payload - clockTolerance L \<le> clock L \<and>
           clock L \<le> exp payload + clockTolerance L))
   \<and> (\<forall>t header payload.
        token_of (authorization rq) = Some t \<and> t \<noteq> [] \<and>
        decode L t = Some (header, payload) \<and>
        (exp payload + clockTolerance L < clock L \<or> iss payload \<noteq> issuer (jwtOptions e)) \<longrightarrow>
          fst (authenticateToken (jwt_verify L) gsk e rq c) =
            \<lparr>req = rq,
             res = Some \<lparr>status = 403, body = [(''error'', JStr ''Invalid or expired token.'')]\<rparr>,
             next_called = False\<rparr>)"
proof (intro conjI allI impI)
  show "issuer (jwtOptions e) =
     or_default (KEYCLOAK_ISSUER e)
       ''https://patientsystem-keycloak.app.cloud.cbh.kth.se/realms/patientsystem''"
    by (simp add: jwtOptions_def)
next
  assume "next_called (fst (authenticateToken (jwt_verify L) gsk e rq c))"
  then obtain t d where t: "token_of (authorization rq) = Some t"
    and d: "fst (jwt_verify L t (getKey gsk) (jwtOptions e) c) = Inr d"
    using authenticateToken_next [of "jwt_verify L" gsk e rq c] by blast
  from jwt_verify_accepts [OF d] t
  show "\<exists>t header payload.
           token_of (authorization rq) = Some t \<and> decode L t = Some (header, payload) \<and>
           iss payload = issuer (jwtOptions e) \<and>
           iat payload - clockTolerance L \<le> clock L \<and>
           clock L \<le> exp payload + clockTolerance L"
    by blast
next
  fix t header payload
  assume a: "token_of (authorization rq) = Some t \<and> t \<noteq> [] \<and>
        decode L t = Some (header, payload) \<and>
        (exp payload + clockTolerance L < clock L \<or> iss payload \<noteq> issuer (jwtOptions e))"
  then have "fst (jwt_verify L t (getKey gsk) (jwtOptions e) c) = Inl InvalidTokenError"
    using jwt_verify_rejects [of L t header payload "jwtOptions e" "getKey gsk" c]
    by blast
  with a show "fst (authenticateToken (jwt_verify L) gsk e rq c) =
            \<lparr>req = rq,
             res = Some \<lparr>status = 403, body = [(''error'', JStr ''Invalid or expired token.'')]\<rparr>,
             next_called = False\<rparr>"
    using authenticateToken_refused [of rq t "jwt_verify L" gsk e c InvalidTokenError]
    by simp
qed

theorem issuer_and_lifetime_checked_witness:
  "fst (authenticateToken (jwt_verify (sample_library 1301)) one_key no_env
      \<lparr>authorization = Some ''Bearer good'', user = None\<rparr> ()) =
     \<lparr>req = \<lparr>authorization = Some ''Bearer good'', user = None\<rparr>,
      res = Some \<lparr>status = 403, body = [(''error'', JStr ''Invalid or expired token.'')]\<rparr>,
      next_called = False\<rparr>
   \<and> fst (authenticateToken (jwt_verify (sample_library 1100)) one_key no_env
      \<lparr>authorization = Some ''Bearer foreign'', user = None\<rparr> ()) =
     \<lparr>req = \<lparr>authorization = Some ''Bearer foreign'', user = None\<rparr>,
      res = Some \<lparr>status = 403, body = [(''error'', JStr ''Invalid or expired token.'')]\<rparr>,
      next_called = False\<rparr>
   \<and> next_called (fst (authenticateToken (jwt_verify (sample_library 1300)) one_key no_env
      \<lparr>authorization = Some ''Bearer good'', user = None\<rparr> ()))
   \<and> (\<exists>t header payload.
         token_of (Some ''Bearer good'') = Some t \<and>
         decode (sample_library 1300) t = Some (header, payload) \<and>
         iss payload = issuer (jwtOptions no_env) \<and>
         iat payload \<le> 1300 \<and> 1300 \<le> exp payload)"
proof -
  have n: "next_called (fst (authenticateToken (jwt_verify (sample_library 1300)) one_key no_env
      \<lparr>authorization = Some ''Bearer good'', user = None\<rparr> ()))"
    by (simp add: authenticateToken_def token_of_def index_def jwt_verify_def
          sample_library_def sample_tokens_def sample_signature_def sample_claims_def
          getKey_def getPublicKey_def one_key_def jwtOptions_def no_env_def or_default_def
          continue_def)
  have x: "token_of (authorization \<lparr>authorization = Some ''Bearer good'', user = None\<rparr>) =
          Some ''good'' \<and> ''good'' \<noteq> [] \<and>
        decode (sample_library 1301) ''good'' =
          Some (\<lparr>alg = ''RS256'', kid = ''k1''\<rparr>, sample_claims [''doctor'']) \<and>
        (exp (sample_claims [''doctor'']) + clockTolerance (sample_library 1301)
           < clock (sample_library 1301) \<or>
         iss (sample_claims [''doctor'']) \<noteq> issuer (jwtOptions no_env))"
    by (simp add: token_of_def index_def sample_library_def sample_tokens_def sample_claims_def)
  have f: "token_of (authorization \<lparr>authorization = Some ''Bearer foreign'', user = None\<rparr>) =
          Some ''foreign'' \<and> ''foreign'' \<noteq> [] \<and>
        decode (sample_library 1100) ''foreign'' =
          Some (\<lparr>alg = ''RS256'', kid = ''k1''\<rparr>,
                (sample_claims [''doctor''])\<lparr>iss := ''https://example.org/realms/other''\<rparr>) \<and>
        (exp ((sample_claims [''doctor''])\<lparr>iss := ''https://example.org/realms/other''\<rparr>)
           + clockTolerance (sample_library 1100) < clock (sample_library 1100) \<or>
         iss ((sample_claims [''doctor''])\<lparr>iss := ''https://example.org/realms/other''\<rparr>)
           \<noteq> issuer (jwtOptions no_env))"
    by (simp add: token_of_def index_def sample_library_def sample_tokens_def sample_claims_def
          jwtOptions_def no_env_def or_default_def)
  from issuer_and_lifetime_checked
         [of no_env "sample_library 1301" one_key
             "\<lparr>authorization = Some ''Bearer good'', user = None\<rparr>" "()"] x
       issuer_and_lifetime_checked
         [of no_env "sample_library 1100" one_key
             "\<lparr>authorization = Some ''Bearer foreign'', user = None\<rparr>" "()"] f
       issuer_and_lifetime_checked
         [of no_env "sample_library 1300" one_key
             "\<lparr>authorization = Some ''Bearer good'', user = None\<rparr>" "()"] n
  show ?thesis by (simp add: sample_library_def)
qed

section \<open>The key cache\<close>

lemma length_store:
  assumes "0 < cacheMaxEntries cfg" and "length es \<le> cacheMaxEntries cfg"
  shows "length (store cfg e es) \<le> cacheMaxEntries cfg"
proof -
  let ?others = "filter (\<lambda>x. keyId (cached_key x) \<noteq> keyId (cached_key e)) es"
  have "length ?others \<le> length es" by (rule length_filter_le)
  then have "length ?others \<le> cacheMaxEntries cfg" using assms(2) by (rule le_trans)
  with assms show ?thesis
    by (auto simp: store_def Let_def)
qed

lemma entries_fetch:
  assumes "0 < cacheMaxEntries cfg" and "length (entries s) \<le> cacheMaxEntries cfg"
  shows "length (entries (snd (fetch cfg remote now k s))) \<le> cacheMaxEntries cfg"
  using assms length_store [OF assms]
  by (simp add: fetch_def Let_def split: option.splits)

lemma entries_resolveKey:
  assumes "0 < cacheMaxEntries cfg" and "length (entries s) \<le> cacheMaxEntries cfg"
  shows "length (entries (snd (resolveKey cfg remote now k s))) \<le> cacheMaxEntries cfg"
  using assms entries_fetch [OF assms]
  by (simp add: resolveKey_def split: option.splits)

lemma entries_resolve_all:
  assumes "0 < cacheMaxEntries cfg"
  shows "length (entries s) \<le> cacheMaxEntries cfg \<Longrightarrow>
         length (entries (resolve_all cfg lookups s)) \<le> cacheMaxEntries cfg"
proof (induction lookups arbitrary: s)
  case Nil
  then show ?case by simp
next
  case (Cons l lookups)
  obtain remote now k where l: "l = (remote, now, k)" by (cases l)
  from Cons.prems have "length (entries (snd (resolveKey cfg remote now k s))) \<le> cacheMaxEntries cfg"
    by (rule entries_resolveKey [OF assms])
  then show ?case
    unfolding l by (simp add: Cons.IH)
qed

lemma store_at_capacity:
  assumes "0 < cacheMaxEntries cfg" and "length es = cacheMaxEntries cfg"
    and "\<forall>x\<in>set es. keyId (cached_key x) \<noteq> keyId (cached_key e)"
  shows "store cfg e es = tl es @ [e]"
proof -
  from assms(3) have "filter (\<lambda>x. keyId (cached_key x) \<noteq> keyId (cached_key e)) es = es"
    by (simp add: filter_id_conv)
  with assms show ?thesis
    by (simp add: store_def)
qed

lemma cached_Some:
  "cached k es = Some e \<Longrightarrow> e \<in> set es \<and> keyId (cached_key e) = k"
  by (auto simp: cached_def find_Some_iff)

lemma fetch_counts: "fetches (snd (fetch cfg remote now k s)) = Suc (fetches s)"
  by (simp add: fetch_def Let_def split: option.splits)

lemma fetch_result:
  "fst (fetch cfg remote now k s) =
     (case remote of
        None \<Rightarrow> Inl KeyResolutionError
      | Some ks \<Rightarrow>
          (case find (\<lambda>x. keyId x = k) ks of
             None \<Rightarrow> Inl KeyResolutionError
           | Some key \<Rightarrow> Inr key))"
  by (simp add: fetch_def Let_def split: option.splits)

lemma served_from_cache:
  assumes "resolveKey cfg remote now k s = (Inr key, s')" and "fetches s' = fetches s"
  shows "\<exists>e\<in>set (entries s). cached_key e = key \<and> keyId key = k \<and>
           now - fetchedAt e \<le> cacheMaxAge cfg"
proof (cases "cached k (entries s)")
  case None
  with assms(1) have "s' = snd (fetch cfg remote now k s)"
    by (simp add: resolveKey_def)
  with assms(2) fetch_counts [of cfg remote now k s] show ?thesis by simp
next
  case (Some e)
  show ?thesis
  proof (cases "stale cfg now e")
    case True
    with Some assms(1) have "s' = snd (fetch cfg remote now k s)"
      by (simp add: resolveKey_def)
    with assms(2) fetch_counts [of cfg remote now k s] show ?thesis by simp
  next
    case False
    with Some assms(1) have "key = cached_key e"
      by (simp add: resolveKey_def)
    with False cached_Some [OF Some] show ?thesis
      by (auto simp: stale_def)
  qed
qed

lemma stale_refetched:
  assumes "cached k (entries s) = Some e" and "cacheMaxAge cfg < now - fetchedAt e"
  shows "resolveKey cfg remote now k s = fetch cfg remote now k s"
  using assms by (simp add: resolveKey_def stale_def)

text \<open>
  C8. With a positive configured maximum (the source sets 5), the cache never holds more
  entries than the maximum: not after any run of lookups from the empty cache, and a
  lookup keeps the bound wherever it holds. Storing a key that is not yet cached into a
  full cache drops exactly the oldest entry and appends the new one. A key is served
  without a fetch only from a cached entry for that key identifier whose age is at most
  the configured maximum age (the source sets 600000 ms); when the cached entry is older,
  the lookup fetches (the count of fetches goes up by one) and answers with what the
  remote key set holds, or with \<open>KeyResolutionError\<close>.
\<close>

theorem cache_bounded_and_fresh:
  assumes "0 < cacheMaxEntries cfg"
  shows
  "length (entries (resolve_all cfg lookups empty_resolver)) \<le> cacheMaxEntries cfg
   \<and> (length (entries s) \<le> cacheMaxEntries cfg \<longrightarrow>
        length (entries (snd (resolveKey cfg remote now k s))) \<le> cacheMaxEntries cfg)
   \<and> (length es = cacheMaxEntries cfg \<and>
        (\<forall>x\<in>set es. keyId (cached_key x) \<noteq> keyId (cached_key new)) \<longrightarrow>
        store cfg new es = tl es @ [new])
   \<and> (\<forall>key s'. resolveKey cfg remote now k s = (Inr key, s') \<and> fetches s' = fetches s \<longrightarrow>
        (\<exists>e\<in>set (entries s). cached_key e = key \<and> keyId key = k \<and>
           now - fetchedAt e \<le> cacheMaxAge cfg))
   \<and> (\<forall>e. cached k (entries s) = Some e \<and> cacheMaxAge cfg < now - fetchedAt e \<longrightarrow>
        fetches (snd (resolveKey cfg remote now k s)) = Suc (fetches s) \<and>
        fst (resolveKey cfg remote now k s) =
          (case remote of
             None \<Rightarrow> Inl KeyResolutionError
           | Some ks \<Rightarrow>
               (case find (\<lambda>x. keyId x = k) ks of
                  None \<Rightarrow> Inl KeyResolutionError
                | Some key \<Rightarrow> Inr key)))"
proof (intro conjI allI impI)
  show "length (entries (resolve_all cfg lookups empty_resolver)) \<le> cacheMaxEntries cfg"
    by (rule entries_resolve_all [OF assms]) (simp add: empty_resolver_def)
next
  assume "length (entries s) \<le> cacheMaxEntries cfg"
  then show "length (entries (snd (resolveKey cfg remote now k s))) \<le> cacheMaxEntries cfg"
    by (rule entries_resolveKey [OF assms])
next
  assume "length es = cacheMaxEntries cfg \<and>
        (\<forall>x\<in>set es. keyId (cached_key x) \<noteq> keyId (cached_key new))"
  then show "store cfg new es = tl es @ [new]"
    using store_at_capacity [OF assms, of es new] by blast
next
  fix key s'
  assume "resolveKey cfg remote now k s = (Inr key, s') \<and> fetches s' = fetches s"
  then show "\<exists>e\<in>set (entries s). cached_key e = key \<and> keyId key = k \<and>
           now - fetchedAt e \<le> cacheMaxAge cfg"
    using served_from_cache [of cfg remote now k s key s'] by blast
next
  fix e
  assume "cached k (entries s) = Some e \<and> cacheMaxAge cfg < now - fetchedAt e"
  then have "resolveKey cfg remote now k s = fetch cfg remote now k s"
    using stale_refetched [of k s e cfg now remote] by blast
  then show "fetches (snd (resolveKey cfg remote now k s)) = Suc (fetches s)"
    by (simp add: fetch_counts)
next
  fix e
  assume "cached k (entries s) = Some e \<and> cacheMaxAge cfg < now - fetchedAt e"
  then have "resolveKey cfg remote now k s = fetch cfg remote now k s"
    using stale_refetched [of k s e cfg now remote] by blast
  then show "fst (resolveKey cfg remote now k s) =
          (case remote of
             None \<Rightarrow> Inl KeyResolutionError
           | Some ks \<Rightarrow>
               (case find (\<lambda>x. keyId x = k) ks of
                  None \<Rightarrow> Inl KeyResolutionError
                | Some key \<Rightarrow> Inr key))"
    by (simp add: fetch_result)
qed


theorem cache_bounded_and_fresh_witness:
  "0 < cacheMaxEntries (client_options no_env)
   \<and> entries (resolve_all (client_options no_env)
        [(six_keys, 0, ''a''), (six_keys, 1, ''b''), (six_keys, 2, ''c''),
         (six_keys, 3, ''d''), (six_keys, 4, ''e''), (six_keys, 5, ''f'')] empty_resolver) =
       [sample_entry ''b'' 1, sample_entry ''c'' 2, sample_entry ''d'' 3, sample_entry ''e'' 4,
        sample_entry ''f'' 5]
   \<and> length (entries (resolve_all (client_options no_env)
        [(six_keys, 0, ''a''), (six_keys, 1, ''b''), (six_keys, 2, ''c''),
         (six_keys, 3, ''d''), (six_keys, 4, ''e''), (six_keys, 5, ''f'')] empty_resolver))
       \<le> cacheMaxEntries (client_options no_env)
   \<and> store (client_options no_env) (sample_entry ''f'' 5)
        [sample_entry ''a'' 0, sample_entry ''b'' 1, sample_entry ''c'' 2, sample_entry ''d'' 3,
         sample_entry ''e'' 4] =
       [sample_entry ''b'' 1, sample_entry ''c'' 2, sample_entry ''d'' 3, sample_entry ''e'' 4,
        sample_entry ''f'' 5]
   \<and> resolveKey (client_options no_env) None 600000 ''a''
        \<lparr>entries = [sample_entry ''a'' 0], fetches = 1\<rparr> =
       (Inr (sample_key ''a''), \<lparr>entries = [sample_entry ''a'' 0], fetches = 1\<rparr>)
   \<and> (\<exists>e\<in>set [sample_entry ''a'' 0]. cached_key e = sample_key ''a'' \<and>
         600000 - fetchedAt e \<le> cacheMaxAge (client_options no_env))
   \<and> fetches (snd (resolveKey (client_options no_env) six_keys 600001 ''a''
        \<lparr>entries = [sample_entry ''a'' 0], fetches = 1\<rparr>)) = 2
   \<and> fst (resolveKey (client_options no_env) six_keys 600001 ''a''
        \<lparr>entries = [sample_entry ''a'' 0], fetches = 1\<rparr>) = Inr (sample_key ''a'')"
proof -
  let ?cfg = "client_options no_env"
  let ?s = "\<lparr>entries = [sample_entry ''a'' 0], fetches = 1\<rparr>"
  let ?full = "[sample_entry ''a'' 0, sample_entry ''b'' 1, sample_entry ''c'' 2,
                sample_entry ''d'' 3, sample_entry ''e'' 4]"
  have pos: "0 < cacheMaxEntries ?cfg"
    by (simp add: client_options_def)
  have run: "entries (resolve_all ?cfg
        [(six_keys, 0, ''a''), (six_keys, 1, ''b''), (six_keys, 2, ''c''),
         (six_keys, 3, ''d''), (six_keys, 4, ''e''), (six_keys, 5, ''f'')] empty_resolver) =
       [sample_entry ''b'' 1, sample_entry ''c'' 2, sample_entry ''d'' 3, sample_entry ''e'' 4,
        sample_entry ''f'' 5]"
    by (simp add: resolveKey_def fetch_def store_def cached_def stale_def six_keys_def
          sample_key_def sample_entry_def empty_resolver_def client_options_def)
  have hit: "resolveKey ?cfg None 600000 ''a'' ?s = (Inr (sample_key ''a''), ?s)"
    by (simp add: resolveKey_def cached_def stale_def sample_entry_def sample_key_def
          client_options_def)
  have old: "cached ''a'' (entries ?s) = Some (sample_entry ''a'' 0) \<and>
        cacheMaxAge ?cfg < 600001 - fetchedAt (sample_entry ''a'' 0)"
    by (simp add: cached_def sample_entry_def sample_key_def client_options_def)
  have cap: "length ?full = cacheMaxEntries ?cfg \<and>
        (\<forall>x\<in>set ?full. keyId (cached_key x) \<noteq> keyId (cached_key (sample_entry ''f'' 5)))"
    by (simp add: sample_entry_def sample_key_def client_options_def)
  from cache_bounded_and_fresh
         [OF pos, of "[(six_keys, 0, ''a''), (six_keys, 1, ''b''), (six_keys, 2, ''c''),
              (six_keys, 3, ''d''), (six_keys, 4, ''e''), (six_keys, 5, ''f'')]"
            ?s None 600000 "''a''" ?full "sample_entry ''f'' 5"]
       cache_bounded_and_fresh
         [OF pos, of "[]" ?s six_keys 600001 "''a''" ?full "sample_entry ''f'' 5"]
       pos run hit old cap
  show ?thesis
    by (simp add: six_keys_def sample_key_def)
qed

end
